theory Spec2Isabelle
  imports Complex_Main
begin

section \<open>Python values and the builtins the bot uses\<close>

text \<open>
  The bot (src/bot.py) is dynamically typed: everything it reads comes out of
  \<^verbatim>\<open>json.load\<close> or \<^verbatim>\<open>response.json()\<close>. A decoded value is a \<open>json\<close>;
  \<open>JNull\<close> is Python's \<^verbatim>\<open>None\<close>. Python's \<^verbatim>\<open>int\<close> and \<^verbatim>\<open>float\<close> are both
  \<open>JNum\<close>: floating point numbers are idealised as exact rationals (no rounding,
  no \<^verbatim>\<open>nan\<close>, no \<^verbatim>\<open>inf\<close>). The items of a \<open>JObj\<close> are the items of the
  decoded dict, whose keys are distinct.

  An exception is a value: a function of the source that can raise returns
  \<open>py_error + 'a\<close>, with \<open>Inl\<close> the exception that escapes it. Only subclasses of
  \<^verbatim>\<open>Exception\<close> are modelled, the ones \<^verbatim>\<open>except Exception\<close> catches.
\<close>

datatype py_error =
  HTTPError | JSONDecodeError | TypeError | KeyError | IndexError
  | AttributeError | ValueError | ZeroDivisionError | OSError

datatype json =
  JNull | JBool bool | JNum rat | JStr string
  | JArr "json list" | JObj "(string \<times> json) list"

text \<open>Sequencing of two steps that may raise: the first exception wins.\<close>

definition and_then :: "py_error + 'a \<Rightarrow> ('a \<Rightarrow> py_error + 'b) \<Rightarrow> py_error + 'b" where
  "and_then r f = (case r of Inl e \<Rightarrow> Inl e | Inr x \<Rightarrow> f x)"

text \<open>Truth value testing: \<^verbatim>\<open>if x\<close>, \<^verbatim>\<open>not x\<close>, \<^verbatim>\<open>x or y\<close>.\<close>

fun truthy :: "json \<Rightarrow> bool" where
  "truthy JNull = False"
| "truthy (JBool b) = b"
| "truthy (JNum r) = (r \<noteq> 0)"
| "truthy (JStr s) = (s \<noteq> [])"
| "truthy (JArr xs) = (xs \<noteq> [])"
| "truthy (JObj kvs) = (kvs \<noteq> [])"

definition py_or :: "json \<Rightarrow> json \<Rightarrow> json" where
  "py_or a b = (if truthy a then a else b)"

text \<open>
  The numeric value of a number (\<^verbatim>\<open>bool\<close> is a subclass of \<^verbatim>\<open>int\<close>); arithmetic,
  ordering against a number and the \<^verbatim>\<open>f\<close> format code raise on everything else.
\<close>

fun as_number :: "json \<Rightarrow> rat option" where
  "as_number (JNum r) = Some r"
| "as_number (JBool b) = Some (if b then 1 else 0)"
| "as_number _ = None"

definition arith_operand :: "json \<Rightarrow> py_error + rat" where
  "arith_operand v = (case as_number v of None \<Rightarrow> Inl TypeError | Some r \<Rightarrow> Inr r)"

text \<open>
  \<^verbatim>\<open>float(v)\<close> and \<^verbatim>\<open>int(v)\<close>. What they make of a string is Python's own grammar
  for numerals, not code of the bot: it is a parameter (\<open>None\<close> is ValueError).
\<close>

record builtins =
  float_of_str :: "string \<Rightarrow> rat option"
  int_of_str :: "string \<Rightarrow> int option"

definition trunc :: "rat \<Rightarrow> int" where
  "trunc r = (if 0 \<le> r then \<lfloor>r\<rfloor> else \<lceil>r\<rceil>)"

fun py_float :: "builtins \<Rightarrow> json \<Rightarrow> py_error + rat" where
  "py_float py (JNum r) = Inr r"
| "py_float py (JBool b) = Inr (if b then 1 else 0)"
| "py_float py (JStr s) =
     (case float_of_str py s of None \<Rightarrow> Inl ValueError | Some r \<Rightarrow> Inr r)"
| "py_float py _ = Inl TypeError"

fun py_int :: "builtins \<Rightarrow> json \<Rightarrow> py_error + int" where
  "py_int py (JNum r) = Inr (trunc r)"
| "py_int py (JBool b) = Inr (if b then 1 else 0)"
| "py_int py (JStr s) =
     (case int_of_str py s of None \<Rightarrow> Inl ValueError | Some n \<Rightarrow> Inr n)"
| "py_int py _ = Inl TypeError"

definition truediv :: "rat \<Rightarrow> rat \<Rightarrow> py_error + rat" where
  "truediv a b = (if b = 0 then Inl ZeroDivisionError else Inr (a / b))"

text \<open>\<^verbatim>\<open>v[0]\<close>, \<^verbatim>\<open>v["key"]\<close> and \<^verbatim>\<open>v.get("key", default)\<close>.\<close>

fun item0 :: "json \<Rightarrow> py_error + json" where
  "item0 (JArr []) = Inl IndexError"
| "item0 (JArr (x # xs)) = Inr x"
| "item0 (JStr []) = Inl IndexError"
| "item0 (JStr (c # cs)) = Inr (JStr [c])"
| "item0 (JObj kvs) = Inl KeyError"
| "item0 _ = Inl TypeError"

fun item :: "json \<Rightarrow> string \<Rightarrow> py_error + json" where
  "item (JObj kvs) k = (case map_of kvs k of None \<Rightarrow> Inl KeyError | Some v \<Rightarrow> Inr v)"
| "item _ k = Inl TypeError"

fun dict_get :: "json \<Rightarrow> string \<Rightarrow> json \<Rightarrow> py_error + json" where
  "dict_get (JObj kvs) k d = Inr (case map_of kvs k of None \<Rightarrow> d | Some v \<Rightarrow> v)"
| "dict_get _ k d = Inl AttributeError"

section \<open>The environment of one report\<close>

text \<open>
  What the outside world answers while one report is compiled: for each HTTP
  call the decoded body, or the exception raised by \<^verbatim>\<open>requests.get\<close>,
  \<^verbatim>\<open>raise_for_status\<close> or \<^verbatim>\<open>.json()\<close>; and the formatted local time.
\<close>

record env =
  py :: builtins
  http_coingecko :: "py_error + json"
  http_funding_rate :: "py_error + json"
  http_premium_index :: "py_error + json"
  http_open_interest :: "py_error + json"
  http_open_interest_hist :: "py_error + json"
  http_llama :: "py_error + json"
  clock :: string

section \<open>Data sources\<close>

text \<open>
  \<^verbatim>\<open>get_coingecko_ethfi\<close>. The returned dict is read with \<^verbatim>\<open>.get\<close> only, so it is
  a record whose absent keys are \<open>JNull\<close>; \<open>no_metrics\<close> is \<^verbatim>\<open>{}\<close>.
\<close>

record spot =
  price :: json
  mcap :: json
  vol24 :: json
  chg1h :: json
  chg24h :: json
  chg7d :: json

definition no_metrics :: spot where
  "no_metrics = \<lparr>price = JNull, mcap = JNull, vol24 = JNull,
                  chg1h = JNull, chg24h = JNull, chg7d = JNull\<rparr>"

definition x_get :: "json \<Rightarrow> string \<Rightarrow> py_error + json" where
  "x_get x k = dict_get x k JNull"

definition get_coingecko_ethfi :: "env \<Rightarrow> py_error + spot" where
  "get_coingecko_ethfi w =
     and_then (http_coingecko w) (\<lambda>arr.
       if \<not> truthy arr then Inr no_metrics
       else and_then (item0 arr) (\<lambda>x.
         and_then (x_get x ''current_price'') (\<lambda>p.
         and_then (x_get x ''market_cap'') (\<lambda>m.
         and_then (x_get x ''total_volume'') (\<lambda>v.
         and_then (x_get x ''price_change_percentage_1h_in_currency'') (\<lambda>c1.
         and_then (x_get x ''price_change_percentage_24h_in_currency'') (\<lambda>c24.
         and_then (x_get x ''price_change_percentage_7d_in_currency'') (\<lambda>c7.
           Inr \<lparr>price = p, mcap = m, vol24 = v,
                chg1h = c1, chg24h = c24, chg7d = c7\<rparr>))))))))"

text \<open>\<^verbatim>\<open>get_binance_funding_latest\<close>. Its dict always has the three keys.\<close>

record funding =
  last_funding :: "rat option"
  last_time :: "int option"
  predicted :: "rat option"

definition settled_funding :: "builtins \<Rightarrow> json \<Rightarrow> rat option \<times> int option" where
  "settled_funding b hist =
     (case hist of
        JArr (h # hs) \<Rightarrow>
          (case and_then (item h ''fundingRate'') (py_float b) of
             Inl e \<Rightarrow> (None, None)
           | Inr f \<Rightarrow>
               (case and_then (item h ''fundingTime'') (py_int b) of
                  Inl e \<Rightarrow> (Some f, None)
                | Inr t \<Rightarrow> (Some f, Some t)))
      | _ \<Rightarrow> (None, None))"

definition predicted_funding :: "builtins \<Rightarrow> json \<Rightarrow> rat option" where
  "predicted_funding b prem =
     (case prem of
        JObj kvs \<Rightarrow>
          (case map_of kvs ''lastFundingRate'' of
             None \<Rightarrow> None
           | Some v \<Rightarrow> (case py_float b v of Inl e \<Rightarrow> None | Inr r \<Rightarrow> Some r))
      | _ \<Rightarrow> None)"

definition get_binance_funding_latest :: "env \<Rightarrow> py_error + funding" where
  "get_binance_funding_latest w =
     and_then (http_funding_rate w) (\<lambda>hist.
       let (lf, lt) = settled_funding (py w) hist in
       and_then (http_premium_index w) (\<lambda>prem.
         Inr \<lparr>last_funding = lf, last_time = lt,
              predicted = predicted_funding (py w) prem\<rparr>))"

text \<open>\<^verbatim>\<open>get_binance_oi_change\<close>.\<close>

record open_interest =
  oi :: rat
  oi_24h_delta :: "rat option"
  oi_24h_pct :: "rat option"

definition curr_oi_of :: "builtins \<Rightarrow> json \<Rightarrow> rat" where
  "curr_oi_of b oi_latest =
     (case and_then (dict_get oi_latest ''openInterest'' (JNum 0)) (py_float b) of
        Inl e \<Rightarrow> 0
      | Inr c \<Rightarrow> c)"

text \<open>\<^verbatim>\<open>float(hist[0]["sumOpenInterest"])\<close>, the body of the second \<^verbatim>\<open>try\<close>.\<close>

definition oldest_oi :: "builtins \<Rightarrow> json \<Rightarrow> py_error + rat" where
  "oldest_oi b hist =
     and_then (and_then (item0 hist) (\<lambda>h. item h ''sumOpenInterest'')) (py_float b)"

definition past_oi_of :: "builtins \<Rightarrow> json \<Rightarrow> rat option" where
  "past_oi_of b hist =
     (case hist of
        JArr xs \<Rightarrow>
          if 24 \<le> length xs then
            (case oldest_oi b hist of Inl e \<Rightarrow> None | Inr p \<Rightarrow> Some p)
          else None
      | _ \<Rightarrow> None)"

definition oi_change :: "rat \<Rightarrow> rat option \<Rightarrow> py_error + open_interest" where
  "oi_change c_oi past =
     (case past of
        None \<Rightarrow> Inr \<lparr>oi = c_oi, oi_24h_delta = None, oi_24h_pct = None\<rparr>
      | Some p \<Rightarrow>
          if p \<noteq> 0 \<and> 0 < p then
            and_then (truediv (c_oi - p) p) (\<lambda>q.
              Inr \<lparr>oi = c_oi, oi_24h_delta = Some (c_oi - p),
                   oi_24h_pct = Some (q * 100)\<rparr>)
          else Inr \<lparr>oi = c_oi, oi_24h_delta = None, oi_24h_pct = None\<rparr>)"

definition get_binance_oi_change :: "env \<Rightarrow> py_error + open_interest" where
  "get_binance_oi_change w =
     and_then (http_open_interest w) (\<lambda>oi_latest.
       and_then (http_open_interest_hist w) (\<lambda>hist.
         oi_change (curr_oi_of (py w) oi_latest) (past_oi_of (py w) hist)))"

text \<open>
  \<^verbatim>\<open>get_llama_tvl\<close>. \<^verbatim>\<open>sum\<close> starts at 0 and adds the values in order; adding a
  value that is not a number raises.
\<close>

fun py_sum :: "rat \<Rightarrow> json list \<Rightarrow> py_error + rat" where
  "py_sum acc [] = Inr acc"
| "py_sum acc (v # vs) = and_then (arith_operand v) (\<lambda>r. py_sum (acc + r) vs)"

definition get_llama_tvl :: "env \<Rightarrow> py_error + json" where
  "get_llama_tvl w =
     and_then (http_llama w) (\<lambda>data.
       and_then (dict_get data ''tvl'' (JNum 0)) (\<lambda>tvl.
         if as_number tvl \<noteq> None then Inr tvl
         else and_then (dict_get data ''currentChainTvls'' (JObj [])) (\<lambda>cur.
           case cur of
             JObj kvs \<Rightarrow> and_then (py_sum 0 (map snd kvs)) (\<lambda>s. Inr (JNum s))
           | _ \<Rightarrow> Inr (JNum 0))))"

section \<open>Formatting\<close>

text \<open>
  The rendered texts are kept as what is substituted into the fixed template:
  a number stands for its formatted numeral, a constructor for the literal text
  around it. \<open>Dash\<close> is the placeholder of an absent value; \<open>Billions\<close>,
  \<open>Millions\<close>, \<open>Thousands\<close> carry the scaled number printed before B, M, K;
  \<open>Str\<close> is \<^verbatim>\<open>str(x)\<close>, the fallback of \<^verbatim>\<open>pretty_usd\<close>.
\<close>

datatype usd = Dash | Billions rat | Millions rat | Thousands rat | Dollars rat | Str json

definition pretty_usd :: "json \<Rightarrow> usd" where
  "pretty_usd x =
     (if x = JNull then Dash
      else case arith_operand x of
             Inl e \<Rightarrow> Str x
           | Inr r \<Rightarrow>
               if 1000000000 \<le> r then Billions (r / 1000000000)
               else if 1000000 \<le> r then Millions (r / 1000000)
               else if 1000 \<le> r then Thousands (r / 1000)
               else Dollars r)"

text \<open>A replacement field with an \<^verbatim>\<open>f\<close> or \<^verbatim>\<open>%\<close> format code.\<close>

fun fmt_f :: "json \<Rightarrow> py_error + rat" where
  "fmt_f (JNum r) = Inr r"
| "fmt_f (JBool b) = Inr (if b then 1 else 0)"
| "fmt_f (JStr s) = Inl ValueError"
| "fmt_f _ = Inl TypeError"

section \<open>The report\<close>

datatype signal = Neutral | Bullish | Caution | PullbackRisk

datatype reason = FundingNonPositive | OIUp | OIDown

datatype eta = EtaUnknown | EtaReached | EtaHours int int | EtaDays int int

text \<open>
  \<^verbatim>\<open>d.get(k) is not None and d[k] < c\<close> on a value that is a float or None, and
  \<^verbatim>\<open>(d.get(k) or 0)\<close>.
\<close>

definition present_and :: "rat option \<Rightarrow> (rat \<Rightarrow> bool) \<Rightarrow> bool" where
  "present_and x P = (case x of None \<Rightarrow> False | Some v \<Rightarrow> P v)"

definition or0 :: "rat option \<Rightarrow> rat" where
  "or0 x = (case x of None \<Rightarrow> 0 | Some v \<Rightarrow> if v \<noteq> 0 then v else 0)"

definition reasons_of :: "rat option \<Rightarrow> rat option \<Rightarrow> reason list" where
  "reasons_of pred pct =
     (if present_and pred (\<lambda>f. f \<le> 0) then [FundingNonPositive] else [])
     @ (case pct of
          None \<Rightarrow> []
        | Some q \<Rightarrow> if 0 < q then [OIUp] else if q < 0 then [OIDown] else [])"

definition signal_of :: "rat option \<Rightarrow> rat option \<Rightarrow> signal" where
  "signal_of pred pct =
     (if present_and pred (\<lambda>f. f < 0) \<and> 0 \<le> or0 pct then Bullish
      else if present_and pred (\<lambda>f. 0 < f) \<and> 3 < or0 pct then Caution
      else if present_and pred (\<lambda>f. 0 < f) \<and> or0 pct < 0 then PullbackRisk
      else Neutral)"

text \<open>
  The body of the \<^verbatim>\<open>try\<close> that estimates the time to $1.8. \<^verbatim>\<open>float(price)\<close> is
  reached only after \<^verbatim>\<open>price > 0\<close> has succeeded, on a number, which it returns.
\<close>

definition eta_try :: "json \<Rightarrow> json \<Rightarrow> json \<Rightarrow> py_error + eta" where
  "eta_try price_v vol24_v chg24h_v =
     (if \<not> truthy price_v then Inr EtaUnknown
      else and_then (arith_operand price_v) (\<lambda>p.
        if \<not> 0 < p then Inr EtaUnknown
        else let gap = 1.8 - p in
          if gap \<le> 0 then Inr EtaReached
          else and_then (arith_operand (py_or vol24_v (JNum 0))) (\<lambda>v.
            let vol_factor = max 0.3 (min (v / 70000000) 2.0) in
            and_then (arith_operand (py_or chg24h_v (JNum 0))) (\<lambda>c.
              let daily_pct = (if \<bar>c\<bar> \<noteq> 0 then \<bar>c\<bar> else 3.0);
                  daily_move = max 1.5 (min daily_pct 8.0) / 100.0
              in and_then (truediv gap p) (\<lambda>rel.
                 and_then (truediv rel daily_move) (\<lambda>days0.
                 and_then (truediv days0 vol_factor) (\<lambda>days.
                   Inr (if days < 1
                        then EtaHours (trunc (days * 24)) (trunc (days * 24) + 6)
                        else EtaDays (trunc days) (trunc days + 4)))))))))"

definition eta_text :: "json \<Rightarrow> json \<Rightarrow> json \<Rightarrow> eta" where
  "eta_text price_v vol24_v chg24h_v =
     (case eta_try price_v vol24_v chg24h_v of Inl e \<Rightarrow> EtaUnknown | Inr t \<Rightarrow> t)"

text \<open>
  The message, as the values substituted into its template, in the order of
  the template. An empty \<open>r_reasons\<close> is rendered as the fixed default sentence.
  In \<^verbatim>\<open>format_report\<close>, \<^verbatim>\<open>get_coingecko_ethfi() or {}\<close> is the record itself:
  an empty dict and a dict of absent values read the same through \<^verbatim>\<open>.get\<close>.
\<close>

record report =
  r_time :: string
  r_price :: rat
  r_vol24 :: usd
  r_mcap :: usd
  r_tvl :: usd
  r_chg1h :: rat
  r_chg24h :: rat
  r_funding :: rat
  r_oi :: rat
  r_oi_delta :: rat
  r_oi_pct :: rat
  r_signal :: signal
  r_reasons :: "reason list"
  r_eta :: eta

definition format_report :: "env \<Rightarrow> py_error + report" where
  "format_report w =
     and_then (get_coingecko_ethfi w) (\<lambda>cg.
     and_then (get_binance_funding_latest w) (\<lambda>fund.
     and_then (get_binance_oi_change w) (\<lambda>oic.
       let tvl = (case get_llama_tvl w of Inl e \<Rightarrow> JNull | Inr t \<Rightarrow> t) in
       and_then (fmt_f (py_or (price cg) (JNum 0))) (\<lambda>price_s.
       and_then (fmt_f (py_or (chg1h cg) (JNum 0))) (\<lambda>chg1h_s.
       and_then (fmt_f (py_or (chg24h cg) (JNum 0))) (\<lambda>chg24h_s.
         Inr \<lparr>r_time = clock w,
              r_price = price_s,
              r_vol24 = pretty_usd (vol24 cg),
              r_mcap = pretty_usd (mcap cg),
              r_tvl = pretty_usd tvl,
              r_chg1h = chg1h_s,
              r_chg24h = chg24h_s,
              r_funding = or0 (predicted fund),
              r_oi = oi oic,
              r_oi_delta = or0 (oi_24h_delta oic),
              r_oi_pct = or0 (oi_24h_pct oic),
              r_signal = signal_of (predicted fund) (oi_24h_pct oic),
              r_reasons = reasons_of (predicted fund) (oi_24h_pct oic),
              r_eta = eta_text (price cg) (vol24 cg) (chg24h cg)\<rparr>))))))"

section \<open>Subscriber storage\<close>

text \<open>
  The file \<^verbatim>\<open>subscribers.json\<close>, by what reading it gives: it does not exist;
  \<^verbatim>\<open>open\<close> raises; \<^verbatim>\<open>json.load\<close> raises on its text; or its text decodes to a
  value. \<^verbatim>\<open>json.dump\<close> of a list of decoded values writes a text that decodes
  to that list.
\<close>

datatype disk_file = Missing | Unreadable | Malformed | Parsed json

text \<open>
  A member of a Python set is kept up to \<^verbatim>\<open>==\<close>: \<^verbatim>\<open>True\<close> and \<^verbatim>\<open>1\<close> are one
  member, lists and dicts are unhashable. \<^verbatim>\<open>set(v)\<close> iterates a list, the keys
  of a dict or the characters of a string, and raises on anything else.
\<close>

fun py_key :: "json \<Rightarrow> py_error + json" where
  "py_key (JArr xs) = Inl TypeError"
| "py_key (JObj kvs) = Inl TypeError"
| "py_key (JBool b) = Inr (JNum (if b then 1 else 0))"
| "py_key v = Inr v"

fun keys_of :: "json list \<Rightarrow> py_error + json set" where
  "keys_of [] = Inr {}"
| "keys_of (x # xs) =
     and_then (py_key x) (\<lambda>k. and_then (keys_of xs) (\<lambda>S. Inr (insert k S)))"

fun py_set :: "json \<Rightarrow> py_error + json set" where
  "py_set (JArr xs) = keys_of xs"
| "py_set (JObj kvs) = Inr (set (map (\<lambda>kv. JStr (fst kv)) kvs))"
| "py_set (JStr s) = Inr (set (map (\<lambda>c. JStr [c]) s))"
| "py_set _ = Inl TypeError"

text \<open>The body of the \<^verbatim>\<open>try\<close> in \<^verbatim>\<open>load_subscribers\<close>, and the function.\<close>

fun load_try :: "disk_file \<Rightarrow> py_error + json set" where
  "load_try Missing = Inl OSError"
| "load_try Unreadable = Inl OSError"
| "load_try Malformed = Inl JSONDecodeError"
| "load_try (Parsed ids) = py_set ids"

definition load_subscribers :: "disk_file \<Rightarrow> py_error + json set" where
  "load_subscribers f =
     (if f = Missing then Inr {}
      else case load_try f of Inl e \<Rightarrow> Inr {} | Inr S \<Rightarrow> Inr S)"

text \<open>
  \<^verbatim>\<open>save_subscribers\<close>. \<open>to_list\<close> is \<^verbatim>\<open>list(subs)\<close>, the order in which Python
  iterates the set; \<open>can_write\<close> tells whether \<^verbatim>\<open>open(DATA_FILE, "w")\<close> succeeds.
\<close>

definition save_subscribers ::
  "(json set \<Rightarrow> json list) \<Rightarrow> bool \<Rightarrow> json set \<Rightarrow> disk_file \<Rightarrow> py_error + disk_file" where
  "save_subscribers to_list can_write subs f =
     (if can_write then Inr (Parsed (JArr (to_list subs))) else Inl OSError)"

section \<open>Command handlers\<close>

text \<open>
  The global \<^verbatim>\<open>SUBSCRIBERS\<close> and the file. A handler returns the new state and
  the reply it sends, or the exception that escapes it. A chat id is an integer.
\<close>

record bot =
  SUBSCRIBERS :: "json set"
  DATA_FILE :: disk_file

datatype reply = Welcome | Unsubscribed | NotSubscribed

definition chat :: "int \<Rightarrow> json" where
  "chat c = JNum (of_int c)"

definition initial :: "disk_file \<Rightarrow> py_error + bot" where
  "initial f =
     and_then (load_subscribers f) (\<lambda>S. Inr \<lparr>SUBSCRIBERS = S, DATA_FILE = f\<rparr>)"

definition start ::
  "(json set \<Rightarrow> json list) \<Rightarrow> bool \<Rightarrow> int \<Rightarrow> bot \<Rightarrow> bot \<times> (py_error + reply)" where
  "start to_list can_write chat_id st =
     (let st1 = st\<lparr>SUBSCRIBERS := insert (chat chat_id) (SUBSCRIBERS st)\<rparr> in
      case save_subscribers to_list can_write (SUBSCRIBERS st1) (DATA_FILE st1) of
        Inl e \<Rightarrow> (st1, Inl e)
      | Inr f \<Rightarrow> (st1\<lparr>DATA_FILE := f\<rparr>, Inr Welcome))"

definition stop ::
  "(json set \<Rightarrow> json list) \<Rightarrow> bool \<Rightarrow> int \<Rightarrow> bot \<Rightarrow> bot \<times> (py_error + reply)" where
  "stop to_list can_write chat_id st =
     (if chat chat_id \<in> SUBSCRIBERS st then
        let st1 = st\<lparr>SUBSCRIBERS := SUBSCRIBERS st - {chat chat_id}\<rparr> in
        case save_subscribers to_list can_write (SUBSCRIBERS st1) (DATA_FILE st1) of
          Inl e \<Rightarrow> (st1, Inl e)
        | Inr f \<Rightarrow> (st1\<lparr>DATA_FILE := f\<rparr>, Inr Unsubscribed)
      else (st, Inr NotSubscribed))"

section \<open>The scheduled broadcast\<close>

text \<open>
  What one tick does to the outside: \<open>compiled\<close> counts the calls of
  \<^verbatim>\<open>format_report\<close> so far, and the n-th call sees the environment \<open>envs n\<close>;
  \<open>sent\<close> are the messages delivered, \<open>logged\<close> the log lines written.
  \<open>send chat_id msg\<close> is the exception \<^verbatim>\<open>send_message\<close> raises, if any.
\<close>

datatype log_entry = SendFailed json py_error | BroadcastError py_error

record io =
  compiled :: nat
  sent :: "(json \<times> report) list"
  logged :: "log_entry list"

fun broadcast_loop ::
  "(json \<Rightarrow> report \<Rightarrow> py_error option) \<Rightarrow> report \<Rightarrow> json list \<Rightarrow> io \<Rightarrow> io" where
  "broadcast_loop send msg [] s = s"
| "broadcast_loop send msg (chat_id # rest) s =
     broadcast_loop send msg rest
       (case send chat_id msg of
          None \<Rightarrow> s\<lparr>sent := sent s @ [(chat_id, msg)]\<rparr>
        | Some e \<Rightarrow> s\<lparr>logged := logged s @ [SendFailed chat_id e]\<rparr>)"

definition send_broadcast ::
  "(json set \<Rightarrow> json list) \<Rightarrow> (nat \<Rightarrow> env) \<Rightarrow> (json \<Rightarrow> report \<Rightarrow> py_error option)
   \<Rightarrow> json set \<Rightarrow> io \<Rightarrow> io" where
  "send_broadcast to_list envs send subs s =
     (if subs = {} then s
      else let s1 = s\<lparr>compiled := compiled s + 1\<rparr> in
        case format_report (envs (compiled s)) of
          Inl e \<Rightarrow> s1\<lparr>logged := logged s1 @ [BroadcastError e]\<rparr>
        | Inr msg \<Rightarrow> broadcast_loop send msg (to_list subs) s1)"

section \<open>Worked inputs\<close>

text \<open>
  Concrete answers of the outside world, used to run the definitions. \<open>demo_py\<close>
  reads the few numerals that occur in them.
\<close>

definition demo_py :: builtins where
  "demo_py = \<lparr>float_of_str = map_of [(''0'', 0), (''1000.0'', 1000), (''800.0'', 800),
                                      (''0.0001'', 1 / 10000)],
              int_of_str = map_of [(''1700000000000'', 1700000000000)]\<rparr>"

definition hist_point :: "string \<Rightarrow> json" where
  "hist_point v = JObj [(''symbol'', JStr ''ETHFIUSDT''), (''sumOpenInterest'', JStr v)]"

definition demo_env :: env where
  "demo_env =
     \<lparr>py = demo_py,
      http_coingecko = Inr (JArr [JObj [(''current_price'', JNum 1.5),
                                        (''market_cap'', JNum 600000000),
                                        (''total_volume'', JNum 70000000),
                                        (''price_change_percentage_1h_in_currency'', JNum 0.5),
                                        (''price_change_percentage_24h_in_currency'', JNum 3)]]),
      http_funding_rate = Inr (JArr [JObj [(''fundingRate'', JStr ''0.0001''),
                                           (''fundingTime'', JNum 1700000000000)]]),
      http_premium_index = Inr (JObj [(''lastFundingRate'', JStr ''0.0001'')]),
      http_open_interest = Inr (JObj [(''openInterest'', JStr ''1000.0'')]),
      http_open_interest_hist = Inr (JArr (hist_point ''800.0'' # replicate 24 (hist_point ''1000.0''))),
      http_llama = Inr (JObj [(''tvl'', JArr []),
                              (''currentChainTvls'', JObj [(''Ethereum'', JNum 5000000000)])]),
      clock = ''03/11 17:15''\<rparr>"

definition env_oldest_unusable :: env where
  "env_oldest_unusable =
     demo_env\<lparr>http_open_interest_hist :=
                 Inr (JArr (JObj [] # replicate 24 (hist_point ''1000.0'')))\<rparr>"


text \<open>A registry of two subscribers, and an enumeration of the sets of chats 1 to 3.\<close>

definition demo_list :: "json set \<Rightarrow> json list" where
  "demo_list S = filter (\<lambda>v. v \<in> S) (map chat [1, 2, 3])"

definition demo_bot :: bot where
  "demo_bot = \<lparr>SUBSCRIBERS = {chat 1, chat 2}, DATA_FILE = Parsed (JArr [chat 1, chat 2])\<rparr>"



text \<open>The spot endpoint failing; and an empty spot answer with the TVL endpoint failing.\<close>

definition env_spot_down :: env where
  "env_spot_down = demo_env\<lparr>http_coingecko := Inl HTTPError\<rparr>"


text \<open>
  The report compiled from \<open>demo_env\<close>; the outside before any tick; and a
  transport that refuses chat 1.
\<close>

definition demo_report :: report where
  "demo_report =
     \<lparr>r_time = ''03/11 17:15'', r_price = 1.5, r_vol24 = Millions 70,
      r_mcap = Millions 600, r_tvl = Billions 5, r_chg1h = 0.5, r_chg24h = 3,
      r_funding = 1 / 10000, r_oi = 1000, r_oi_delta = 200, r_oi_pct = 25,
      r_signal = Caution, r_reasons = [OIUp], r_eta = EtaDays 6 10\<rparr>"

definition io0 :: io where
  "io0 = \<lparr>compiled = 0, sent = [], logged = []\<rparr>"

definition chat1_blocked :: "json \<Rightarrow> report \<Rightarrow> py_error option" where
  "chat1_blocked c msg = (if c = chat 1 then Some HTTPError else None)"

section \<open>The estimate as the specification words it\<close>

text \<open>
  The time-to-target estimate written from the words of the specification, to
  be compared with \<open>eta_text\<close>: \<open>clamp x lo hi\<close>, the number of days, and the
  rendering. Its inputs are numbers that may be missing; \<open>opt_json\<close> is how such
  an input reaches the code.
\<close>

definition clamp :: "rat \<Rightarrow> rat \<Rightarrow> rat \<Rightarrow> rat" where
  "clamp x lo hi = max lo (min x hi)"

definition spec_days :: "rat \<Rightarrow> rat \<Rightarrow> rat \<Rightarrow> rat" where
  "spec_days p v c =
     ((1.8 - p) / p) / (clamp (if \<bar>c\<bar> = 0 then 3.0 else \<bar>c\<bar>) 1.5 8.0 / 100)
       / clamp (v / 70000000) 0.3 2.0"

fun opt_json :: "rat option \<Rightarrow> json" where
  "opt_json None = JNull"
| "opt_json (Some r) = JNum r"


section \<open>What a report is made of\<close>

text \<open>
  The signal, the reasons and the estimate of a report are \<open>signal_of\<close>,
  \<open>reasons_of\<close> and \<open>eta_text\<close> of what the adapters returned.
\<close>

lemma format_report_parts:
  assumes "format_report w = Inr r"
  shows "\<exists>cg fund oic.
           get_coingecko_ethfi w = Inr cg \<and> get_binance_funding_latest w = Inr fund
           \<and> get_binance_oi_change w = Inr oic
           \<and> r_signal r = signal_of (predicted fund) (oi_24h_pct oic)
           \<and> r_reasons r = reasons_of (predicted fund) (oi_24h_pct oic)
           \<and> r_eta r = eta_text (price cg) (vol24 cg) (chg24h cg)"
  using assms
  by (auto simp: format_report_def and_then_def Let_def split: sum.splits)

section \<open>Open interest over 24 hours\<close>




text \<open>
  C10. When both calls return, \<^verbatim>\<open>get_binance_oi_change\<close> returns (no
  ZeroDivisionError, nor any other exception), and when the oldest point's value
  is absent, unreadable or not above zero, the delta and the percent change are
  both absent.
\<close>

theorem oi_change_guarded:
  assumes "http_open_interest w = Inr a" and "http_open_interest_hist w = Inr h"
  shows "\<exists>r. get_binance_oi_change w = Inr r \<and>
     ((\<forall>p. oldest_oi (py w) h = Inr p \<longrightarrow> p \<le> 0)
        \<longrightarrow> oi_24h_delta r = None \<and> oi_24h_pct r = None)"
  using assms
  by (auto simp: get_binance_oi_change_def and_then_def oi_change_def past_oi_of_def
        truediv_def split: option.splits json.splits sum.splits)

text \<open>The theorem at a history whose first point has no \<^verbatim>\<open>sumOpenInterest\<close>.\<close>

theorem oi_change_guarded_witness:
  "\<exists>r. get_binance_oi_change env_oldest_unusable = Inr r
       \<and> oi_24h_delta r = None \<and> oi_24h_pct r = None"
proof -
  have a: "http_open_interest env_oldest_unusable = Inr (JObj [(''openInterest'', JStr ''1000.0'')])"
    by (simp add: env_oldest_unusable_def demo_env_def)
  have h: "http_open_interest_hist env_oldest_unusable
             = Inr (JArr (JObj [] # replicate 24 (hist_point ''1000.0'')))"
    by (simp add: env_oldest_unusable_def)
  have o: "\<forall>p. oldest_oi (py env_oldest_unusable)
                 (JArr (JObj [] # replicate 24 (hist_point ''1000.0''))) = Inr p \<longrightarrow> p \<le> 0"
    by (simp add: oldest_oi_def and_then_def)
  from oi_change_guarded [OF a h] o show ?thesis by blast
qed

section \<open>Signal\<close>

text \<open>
  C2. The signal is a function of the predicted funding rate and the 24h
  percent change of the open interest alone. It is Bullish exactly when the
  rate is present and below 0 and the percent (0 when absent) is at least 0;
  Caution exactly when the rate is present and above 0 and the percent is above
  3; PullbackRisk exactly when the rate is present and above 0 and the percent
  is below 0; Neutral otherwise. The four examples of the specification follow.
\<close>

theorem signal_first_match:
  "(signal_of pred pct = Bullish \<longleftrightarrow>
      (\<exists>f. pred = Some f \<and> f < 0 \<and> 0 \<le> (case pct of None \<Rightarrow> 0 | Some q \<Rightarrow> q)))
   \<and> (signal_of pred pct = Caution \<longleftrightarrow>
      (\<exists>f. pred = Some f \<and> 0 < f \<and> 3 < (case pct of None \<Rightarrow> 0 | Some q \<Rightarrow> q)))
   \<and> (signal_of pred pct = PullbackRisk \<longleftrightarrow>
      (\<exists>f. pred = Some f \<and> 0 < f \<and> (case pct of None \<Rightarrow> 0 | Some q \<Rightarrow> q) < 0))
   \<and> (signal_of pred pct = Neutral \<longleftrightarrow>
      (pred = None \<or> pred = Some 0
       \<or> (\<exists>f. pred = Some f \<and> f < 0 \<and> (case pct of None \<Rightarrow> 0 | Some q \<Rightarrow> q) < 0)
       \<or> (\<exists>f. pred = Some f \<and> 0 < f \<and> 0 \<le> (case pct of None \<Rightarrow> 0 | Some q \<Rightarrow> q)
                \<and> (case pct of None \<Rightarrow> 0 | Some q \<Rightarrow> q) \<le> 3)))
   \<and> signal_of (Some (- 0.001)) (Some 5) = Bullish
   \<and> signal_of (Some 0.002) (Some 4) = Caution
   \<and> signal_of (Some 0.002) (Some (- 1)) = PullbackRisk
   \<and> signal_of None None = Neutral \<and> reasons_of None None = []"
  by (auto simp: signal_of_def reasons_of_def present_and_def or0_def split: option.splits)

section \<open>Loading the subscribers\<close>

lemma keys_of_chats: "keys_of (map chat ids) = Inr (chat ` set ids)"
  by (induction ids) (auto simp: chat_def and_then_def)

text \<open>
  C7. \<^verbatim>\<open>load_subscribers\<close> returns a set for every state of the file; the
  empty set when the file does not exist, cannot be opened or does not decode;
  and the set of the ids when the file holds a JSON array of ids.
\<close>

theorem load_subscribers_total:
  "(\<exists>S. load_subscribers f = Inr S)
   \<and> load_subscribers Missing = Inr {}
   \<and> load_subscribers Unreadable = Inr {}
   \<and> load_subscribers Malformed = Inr {}
   \<and> load_subscribers (Parsed (JArr (map chat ids))) = Inr (chat ` set ids)"
  by (auto simp: load_subscribers_def keys_of_chats split: sum.splits)

section \<open>Time to target\<close>

lemma operand_or0: "arith_operand (py_or (opt_json x) (JNum 0)) = Inr (case x of None \<Rightarrow> 0 | Some v \<Rightarrow> v)"
  by (cases x) (auto simp: arith_operand_def py_or_def)

lemma clamp_pos: "0 < lo \<Longrightarrow> 0 < clamp x lo hi"
  by (simp add: clamp_def max_def)

lemma spec_days_pos:
  assumes "0 < p" "p < 1.8" shows "0 < spec_days p v c"
proof -
  have a: "0 < (1.8 - p) / p" using assms by simp
  have b: "0 < clamp (if \<bar>c\<bar> = 0 then 3.0 else \<bar>c\<bar>) 1.5 8.0 / 100"
    using clamp_pos[of "1.5"] by simp
  have c: "0 < clamp (v / 70000000) 0.3 2.0" by (rule clamp_pos) simp
  from a b have "0 < (1.8 - p) / p / (clamp (if \<bar>c\<bar> = 0 then 3.0 else \<bar>c\<bar>) 1.5 8.0 / 100)"
    by (rule divide_pos_pos)
  from this c show ?thesis unfolding spec_days_def by (rule divide_pos_pos)
qed


lemma dmeq: "max 1.5 (min (if \<bar>c\<bar> \<noteq> 0 then \<bar>c\<bar> else 3.0) 8.0) / 100.0 = clamp (if \<bar>c\<bar> = 0 then 3.0 else \<bar>c\<bar>) 1.5 8.0 / (100::rat)"
  by (simp add: clamp_def)

lemma vfeq: "max 0.3 (min (v / 70000000) 2.0) = clamp (v / 70000000) 0.3 (2.0::rat)"
  by (simp add: clamp_def)

lemma and_then_Inr: "and_then (Inr x) f = f x"
  by (simp add: and_then_def)

lemma and_then_truediv: "b \<noteq> 0 \<Longrightarrow> and_then (truediv a b) f = f (a / b)"
  by (simp add: and_then_def truediv_def)

lemma operand_num: "arith_operand (JNum p) = Inr p"
  by (simp add: arith_operand_def)

lemma trunc_pos: "0 < d \<Longrightarrow> trunc d = \<lfloor>d\<rfloor>" by (simp add: trunc_def)

lemma eta_try_num:
  assumes "0 < p" "p < 1.8"
  shows "eta_try (JNum p) (opt_json vo) (opt_json co) =
     Inr (let days = spec_days p (case vo of None \<Rightarrow> 0 | Some v \<Rightarrow> v) (case co of None \<Rightarrow> 0 | Some c \<Rightarrow> c)
          in if days < 1 then EtaHours \<lfloor>days * 24\<rfloor> (\<lfloor>days * 24\<rfloor> + 6)
                  else EtaDays \<lfloor>days\<rfloor> (\<lfloor>days\<rfloor> + 4))"
proof -
  define v where "v = (case vo of None \<Rightarrow> 0 | Some v \<Rightarrow> v)"
  define c where "c = (case co of None \<Rightarrow> 0 | Some c \<Rightarrow> c)"
  define dm where "dm = clamp (if \<bar>c\<bar> = 0 then 3.0 else \<bar>c\<bar>) 1.5 8.0 / 100"
  define vf where "vf = clamp (v / 70000000) 0.3 2.0"
  define d where "d = (1.8 - p) / p / dm / vf"
  have "0 < clamp (if \<bar>c\<bar> = 0 then 3.0 else \<bar>c\<bar>) 1.5 8.0" by (rule clamp_pos) simp
  then have dm: "dm \<noteq> 0" by (simp add: dm_def)
  have "0 < vf" unfolding vf_def by (rule clamp_pos) simp
  then have vf: "vf \<noteq> 0" by simp
  have tr: "truthy (JNum p)" using assms(1) by simp
  have p0: "p \<noteq> 0" using assms(1) by simp
  have g: "\<not> 1.8 - p \<le> 0" using assms(2) by simp
  have deq: "d = spec_days p v c" by (simp add: d_def spec_days_def dm_def vf_def)
  have pos: "0 < d" unfolding deq using assms by (rule spec_days_pos)
  have pos24: "0 < d * 24" using pos by simp
  have "eta_try (JNum p) (opt_json vo) (opt_json co) =
      Inr (if d < 1 then EtaHours (trunc (d * 24)) (trunc (d * 24) + 6)
           else EtaDays (trunc d) (trunc d + 4))"
    unfolding eta_try_def operand_or0 operand_num and_then_Inr Let_def dmeq vfeq
      v_def[symmetric] c_def[symmetric] dm_def[symmetric] vf_def[symmetric]
    by (simp only: tr assms(1) g not_True_eq_False if_False not_not
          and_then_truediv[OF p0] and_then_truediv[OF dm] and_then_truediv[OF vf] d_def)
  then have "eta_try (JNum p) (opt_json vo) (opt_json co) =
      Inr (if d < 1 then EtaHours \<lfloor>d * 24\<rfloor> (\<lfloor>d * 24\<rfloor> + 6)
           else EtaDays \<lfloor>d\<rfloor> (\<lfloor>d\<rfloor> + 4))"
    unfolding trunc_pos[OF pos] trunc_pos[OF pos24] .
  then show ?thesis
    unfolding deq v_def c_def Let_def .
qed




section \<open>Subscribing and unsubscribing\<close>

lemma start_subscribers: "SUBSCRIBERS (fst (start L cw x st)) = insert (chat x) (SUBSCRIBERS st)"
  by (simp add: start_def save_subscribers_def Let_def)

lemma stop_subscribers: "SUBSCRIBERS (fst (stop L cw x st)) = SUBSCRIBERS st - {chat x}"
  by (simp add: stop_def save_subscribers_def Let_def)

text \<open>
  C4, as the code has it. Whatever the file system does, \<^verbatim>\<open>/start\<close> followed by
  \<^verbatim>\<open>/stop\<close> for the same chat leaves the subscribers without that chat; so the
  original set is restored when the chat was not subscribed before.
\<close>

theorem subscribe_then_unsubscribe:
  "SUBSCRIBERS (fst (stop L2 w2 x (fst (start L1 w1 x st)))) = SUBSCRIBERS st - {chat x}
   \<and> (chat x \<notin> SUBSCRIBERS st \<longrightarrow>
        SUBSCRIBERS (fst (stop L2 w2 x (fst (start L1 w1 x st)))) = SUBSCRIBERS st)"
  by (simp add: start_subscribers stop_subscribers)

lemma chat_eq: "(chat a = chat b) = (a = b)"
  by (simp add: chat_def)

text \<open>The theorem at chat 3, which is not among the two subscribers.\<close>

theorem subscribe_then_unsubscribe_witness:
  "chat 3 \<notin> SUBSCRIBERS demo_bot
   \<and> SUBSCRIBERS (fst (stop demo_list True 3 (fst (start demo_list True 3 demo_bot))))
       = SUBSCRIBERS demo_bot"
  using subscribe_then_unsubscribe [of demo_list True 3 demo_list True demo_bot]
  by (simp add: demo_bot_def chat_eq)

text \<open>
  C4 as stated, for every chat, fails at a chat that is already subscribed:
  chat 1 is gone afterwards.
\<close>

theorem resubscribe_counterexample:
  "chat 1 \<in> SUBSCRIBERS demo_bot
   \<and> SUBSCRIBERS (fst (stop demo_list True 1 (fst (start demo_list True 1 demo_bot)))) = {chat 2}
   \<and> SUBSCRIBERS demo_bot \<noteq> {chat 2}"
  by (auto simp: start_def stop_def save_subscribers_def Let_def demo_bot_def chat_eq)

lemma keys_of_hashable: "\<forall>v\<in>set xs. py_key v = Inr v \<Longrightarrow> keys_of xs = Inr (set xs)"
  by (induction xs) (auto simp: and_then_def)

lemma load_saved:
  assumes "\<forall>v\<in>S. py_key v = Inr v" and "set (L S) = S"
  shows "load_subscribers (Parsed (JArr (L S))) = Inr S"
  using assms keys_of_hashable[of "L S"] by (simp add: load_subscribers_def)

lemma py_key_chat: "py_key (chat x) = Inr (chat x)"
  by (simp add: chat_def)

text \<open>
  C5. The members of the set are values as a Python set keeps them, and
  \<^verbatim>\<open>list\<close> enumerates a set. Then after a \<^verbatim>\<open>/start\<close> that returns, the file
  loads to exactly the subscribers in memory, the chat among them; after a
  \<^verbatim>\<open>/stop\<close> of a subscribed chat that returns, likewise, the chat removed and
  the reply being the confirmation; and a \<^verbatim>\<open>/stop\<close> of a chat that is not
  subscribed changes neither the set nor the file and replies that the chat is
  not subscribed.
\<close>

theorem registry_saved_after_mutation:
  assumes "\<forall>v\<in>SUBSCRIBERS st. py_key v = Inr v"
    and "\<forall>T. T \<subseteq> insert (chat x) (SUBSCRIBERS st) \<longrightarrow> set (to_list T) = T"
  shows "(\<forall>st' r. start to_list cw x st = (st', Inr r) \<longrightarrow>
            SUBSCRIBERS st' = insert (chat x) (SUBSCRIBERS st)
            \<and> load_subscribers (DATA_FILE st') = Inr (SUBSCRIBERS st'))
       \<and> (chat x \<in> SUBSCRIBERS st \<longrightarrow>
            (\<forall>st' r. stop to_list cw x st = (st', Inr r) \<longrightarrow>
               r = Unsubscribed \<and> SUBSCRIBERS st' = SUBSCRIBERS st - {chat x}
               \<and> load_subscribers (DATA_FILE st') = Inr (SUBSCRIBERS st')))
       \<and> (chat x \<notin> SUBSCRIBERS st \<longrightarrow> stop to_list cw x st = (st, Inr NotSubscribed))"
proof -
  have a: "load_subscribers (Parsed (JArr (to_list (insert (chat x) (SUBSCRIBERS st)))))
             = Inr (insert (chat x) (SUBSCRIBERS st))"
    using assms by (intro load_saved) (auto simp: py_key_chat)
  have b: "load_subscribers (Parsed (JArr (to_list (SUBSCRIBERS st - {chat x}))))
             = Inr (SUBSCRIBERS st - {chat x})"
    using assms by (intro load_saved) auto
  show ?thesis
    using a b by (auto simp: start_def stop_def save_subscribers_def Let_def split: if_splits)
qed

lemma demo_list_enum: "T \<subseteq> {chat 1, chat 2, chat 3} \<Longrightarrow> set (demo_list T) = T"
  by (auto simp: demo_list_def)

text \<open>The theorem at the registry of two: chat 3 subscribes, chat 1 and chat 3 unsubscribe.\<close>

theorem registry_saved_after_mutation_witness:
  "load_subscribers (DATA_FILE (fst (start demo_list True 3 demo_bot)))
     = Inr (SUBSCRIBERS (fst (start demo_list True 3 demo_bot)))
   \<and> SUBSCRIBERS (fst (start demo_list True 3 demo_bot)) = {chat 1, chat 2, chat 3}
   \<and> load_subscribers (DATA_FILE (fst (stop demo_list True 1 demo_bot))) = Inr {chat 2}
   \<and> snd (stop demo_list True 1 demo_bot) = Inr Unsubscribed
   \<and> stop demo_list True 3 demo_bot = (demo_bot, Inr NotSubscribed)"
proof -
  have h: "\<forall>v\<in>SUBSCRIBERS demo_bot. py_key v = Inr v"
    by (simp add: demo_bot_def py_key_chat)
  have e3: "\<forall>T. T \<subseteq> insert (chat 3) (SUBSCRIBERS demo_bot) \<longrightarrow> set (demo_list T) = T"
    by (auto simp: demo_bot_def intro!: demo_list_enum)
  have e1: "\<forall>T. T \<subseteq> insert (chat 1) (SUBSCRIBERS demo_bot) \<longrightarrow> set (demo_list T) = T"
    by (auto simp: demo_bot_def intro!: demo_list_enum)
  have s3: "start demo_list True 3 demo_bot
              = (fst (start demo_list True 3 demo_bot), Inr Welcome)"
    by (simp add: start_def save_subscribers_def Let_def)
  have s1: "stop demo_list True 1 demo_bot
              = (fst (stop demo_list True 1 demo_bot), Inr Unsubscribed)"
    by (simp add: stop_def save_subscribers_def Let_def demo_bot_def)
  have m1: "chat 1 \<in> SUBSCRIBERS demo_bot" by (simp add: demo_bot_def)
  have m3: "chat 3 \<notin> SUBSCRIBERS demo_bot" by (simp add: demo_bot_def chat_eq)
  let ?A = "fst (start demo_list True 3 demo_bot)"
  let ?B = "fst (stop demo_list True 1 demo_bot)"
  from registry_saved_after_mutation [OF h e3, of True] s3
  have A: "SUBSCRIBERS ?A = insert (chat 3) (SUBSCRIBERS demo_bot)
           \<and> load_subscribers (DATA_FILE ?A) = Inr (SUBSCRIBERS ?A)"
    by blast
  from registry_saved_after_mutation [OF h e3, of True] m3
  have C: "stop demo_list True 3 demo_bot = (demo_bot, Inr NotSubscribed)"
    by blast
  from registry_saved_after_mutation [OF h e1, of True] m1 s1
  have B: "SUBSCRIBERS ?B = SUBSCRIBERS demo_bot - {chat 1}
           \<and> load_subscribers (DATA_FILE ?B) = Inr (SUBSCRIBERS ?B)"
    by blast
  have i: "insert (chat 3) (SUBSCRIBERS demo_bot) = {chat 1, chat 2, chat 3}"
    by (auto simp: demo_bot_def)
  have d: "SUBSCRIBERS demo_bot - {chat 1} = {chat 2}"
    by (auto simp: demo_bot_def chat_eq)
  have r: "snd (stop demo_list True 1 demo_bot) = Inr Unsubscribed"
    by (simp add: stop_def save_subscribers_def Let_def demo_bot_def)
  from A B C i d r show ?thesis by simp
qed

section \<open>The report never half-rendered\<close>

lemma and_then_Inl: "and_then (Inl e) f = Inl e"
  by (simp add: and_then_def)











section \<open>The scheduled broadcast\<close>

text \<open>The report of \<open>demo_env\<close>, adapter by adapter.\<close>

lemma demo_spot:
  "get_coingecko_ethfi demo_env
     = Inr \<lparr>price = JNum 1.5, mcap = JNum 600000000, vol24 = JNum 70000000,
            chg1h = JNum 0.5, chg24h = JNum 3, chg7d = JNull\<rparr>"
  by (simp add: get_coingecko_ethfi_def demo_env_def and_then_Inr x_get_def)

lemma demo_funding:
  "get_binance_funding_latest demo_env
     = Inr \<lparr>last_funding = Some (1 / 10000), last_time = Some 1700000000000,
            predicted = Some (1 / 10000)\<rparr>"
  by (simp add: get_binance_funding_latest_def demo_env_def demo_py_def and_then_Inr
        settled_funding_def predicted_funding_def trunc_def)

lemma demo_oi:
  "get_binance_oi_change demo_env
     = Inr \<lparr>oi = 1000, oi_24h_delta = Some 200, oi_24h_pct = Some 25\<rparr>"
  by (simp add: get_binance_oi_change_def and_then_def oi_change_def past_oi_of_def
        demo_env_def demo_py_def hist_point_def curr_oi_of_def oldest_oi_def truediv_def)

lemma demo_tvl: "get_llama_tvl demo_env = Inr (JNum 5000000000)"
  by (simp add: get_llama_tvl_def demo_env_def and_then_Inr arith_operand_def)

lemma demo_eta: "eta_text (JNum (3 / 2)) (JNum 70000000) (JNum 3) = EtaDays 6 10"
proof -
  have d: "spec_days (3 / 2) 70000000 3 = 20 / 3"
    by (simp add: spec_days_def clamp_def)
  have f: "\<lfloor>20 / 3 :: rat\<rfloor> = 6" by (simp add: floor_unique)
  have "eta_try (JNum (3 / 2)) (opt_json (Some 70000000)) (opt_json (Some 3))
          = Inr (EtaDays 6 10)"
    by (subst eta_try_num) (simp_all add: d f Let_def)
  then show ?thesis by (simp add: eta_text_def)
qed

lemma format_report_demo: "format_report demo_env = Inr demo_report"
  unfolding format_report_def demo_spot demo_funding demo_oi demo_tvl and_then_Inr
  by (simp add: and_then_Inr demo_eta demo_report_def pretty_usd_def arith_operand_def py_or_def
        or0_def signal_of_def reasons_of_def present_and_def demo_env_def)

text \<open>What the delivery loop leaves behind, for any list of recipients.\<close>

lemma loop_compiled: "compiled (broadcast_loop send msg ids s) = compiled s"
  by (induction ids arbitrary: s) (auto split: option.splits)

lemma loop_sent:
  "sent (broadcast_loop send msg ids s)
     = sent s @ map (\<lambda>c. (c, msg)) (filter (\<lambda>c. send c msg = None) ids)"
  by (induction ids arbitrary: s) (auto split: option.splits)

lemma loop_logged:
  "logged (broadcast_loop send msg ids s)
     = logged s @ concat (map (\<lambda>c. case send c msg of None \<Rightarrow> []
                                      | Some e \<Rightarrow> [SendFailed c e]) ids)"
  by (induction ids arbitrary: s) (auto split: option.splits)

text \<open>
  C6, as the code has it. A tick with no subscriber does nothing and does not
  compile a report. A tick with subscribers calls \<^verbatim>\<open>format_report\<close> exactly
  once; when that returns a report, delivery is attempted for every recipient
  of the snapshot, in order, with that one report: the recipients whose send
  succeeds each get it, a log line is written for each of the others. When
  \<^verbatim>\<open>format_report\<close> raises, nothing is sent and the error is logged.
\<close>

theorem broadcast_compiles_once:
  "(subs = {} \<longrightarrow> send_broadcast L envs send subs s = s)
   \<and> (subs \<noteq> {} \<longrightarrow>
        compiled (send_broadcast L envs send subs s) = compiled s + 1
        \<and> (\<forall>msg. format_report (envs (compiled s)) = Inr msg \<longrightarrow>
              sent (send_broadcast L envs send subs s)
                = sent s @ map (\<lambda>c. (c, msg)) (filter (\<lambda>c. send c msg = None) (L subs))
              \<and> logged (send_broadcast L envs send subs s)
                = logged s @ concat (map (\<lambda>c. case send c msg of None \<Rightarrow> []
                                                | Some e \<Rightarrow> [SendFailed c e]) (L subs)))
        \<and> (\<forall>e. format_report (envs (compiled s)) = Inl e \<longrightarrow>
              sent (send_broadcast L envs send subs s) = sent s
              \<and> logged (send_broadcast L envs send subs s) = logged s @ [BroadcastError e]))"
  by (auto simp: send_broadcast_def Let_def loop_compiled loop_sent loop_logged
        split: sum.splits)

lemma demo_list_two: "demo_list {chat 1, chat 2} = [chat 1, chat 2]"
  by (simp add: demo_list_def chat_eq)

text \<open>
  The theorem at no subscriber, at two subscribers with a working transport,
  and at two subscribers with the spot endpoint failing.
\<close>

theorem broadcast_compiles_once_witness:
  "send_broadcast demo_list (\<lambda>n. demo_env) (\<lambda>c m. None) {} io0 = io0
   \<and> compiled (send_broadcast demo_list (\<lambda>n. demo_env) (\<lambda>c m. None) {chat 1, chat 2} io0) = 1
   \<and> sent (send_broadcast demo_list (\<lambda>n. demo_env) (\<lambda>c m. None) {chat 1, chat 2} io0)
       = [(chat 1, demo_report), (chat 2, demo_report)]
   \<and> sent (send_broadcast demo_list (\<lambda>n. env_spot_down) (\<lambda>c m. None) {chat 1, chat 2} io0) = []"
proof -
  have ne: "{chat 1, chat 2} \<noteq> {}" by simp
  have f: "format_report ((\<lambda>n. demo_env) (compiled io0)) = Inr demo_report"
    by (simp add: format_report_demo)
  have g: "format_report ((\<lambda>n. env_spot_down) (compiled io0)) = Inl HTTPError"
    by (simp add: format_report_def get_coingecko_ethfi_def env_spot_down_def and_then_Inl)
  from broadcast_compiles_once [of "{}" demo_list "\<lambda>n. demo_env" "\<lambda>c m. None" io0]
  have a: "send_broadcast demo_list (\<lambda>n. demo_env) (\<lambda>c m. None) {} io0 = io0" by simp
  from broadcast_compiles_once [of "{chat 1, chat 2}" demo_list "\<lambda>n. demo_env" "\<lambda>c m. None" io0]
    ne f
  have b: "compiled (send_broadcast demo_list (\<lambda>n. demo_env) (\<lambda>c m. None) {chat 1, chat 2} io0) = 1
     \<and> sent (send_broadcast demo_list (\<lambda>n. demo_env) (\<lambda>c m. None) {chat 1, chat 2} io0)
       = [(chat 1, demo_report), (chat 2, demo_report)]"
    by (simp add: demo_list_two io0_def)
  from broadcast_compiles_once [of "{chat 1, chat 2}" demo_list "\<lambda>n. env_spot_down" "\<lambda>c m. None" io0]
    ne g
  have c: "sent (send_broadcast demo_list (\<lambda>n. env_spot_down) (\<lambda>c m. None) {chat 1, chat 2} io0) = []"
    by (simp add: io0_def)
  from a b c show ?thesis by simp
qed

text \<open>
  C6 as stated, on each tick, fails at a tick with no subscriber:
  \<^verbatim>\<open>format_report\<close> is called zero times, not once.
\<close>

theorem broadcast_empty_counterexample:
  "compiled io0 = 0
   \<and> compiled (send_broadcast demo_list (\<lambda>n. demo_env) (\<lambda>c m. None) {} io0) = 0
   \<and> compiled (send_broadcast demo_list (\<lambda>n. demo_env) (\<lambda>c m. None) {} io0) \<noteq> 1"
  by (simp add: send_broadcast_def io0_def)

text \<open>
  C8. In a tick whose report was compiled, let recipient a come before
  recipient b in the snapshot, the send to a raise and the send to b succeed.
  Then b receives the report and the failure of a is logged; more generally
  every recipient of the snapshot whose send succeeds receives the report, and
  the tick logs no broadcast error of its own.
\<close>

theorem delivery_failure_isolated:
  assumes "subs \<noteq> {}" and "format_report (envs (compiled s)) = Inr msg"
    and "L subs = xs @ a # ys @ b # zs"
    and "send a msg = Some e" and "send b msg = None"
  shows "(b, msg) \<in> set (sent (send_broadcast L envs send subs s))
       \<and> SendFailed a e \<in> set (logged (send_broadcast L envs send subs s))
       \<and> (\<forall>c\<in>set (L subs). send c msg = None \<longrightarrow>
              (c, msg) \<in> set (sent (send_broadcast L envs send subs s)))
       \<and> (\<forall>err. BroadcastError err \<in> set (logged (send_broadcast L envs send subs s))
              \<longrightarrow> BroadcastError err \<in> set (logged s))"
proof -
  have r: "send_broadcast L envs send subs s
             = broadcast_loop send msg (L subs) (s\<lparr>compiled := compiled s + 1\<rparr>)"
    using assms(1,2) by (simp add: send_broadcast_def Let_def)
  have 1: "(b, msg) \<in> set (sent (send_broadcast L envs send subs s))"
    unfolding r loop_sent using assms(3,5) by simp
  have 2: "SendFailed a e \<in> set (logged (send_broadcast L envs send subs s))"
    unfolding r loop_logged using assms(3,4) by simp
  have 3: "\<forall>c\<in>set (L subs). send c msg = None \<longrightarrow>
              (c, msg) \<in> set (sent (send_broadcast L envs send subs s))"
    unfolding r loop_sent by auto
  have 4: "\<forall>err. BroadcastError err \<in> set (logged (send_broadcast L envs send subs s))
              \<longrightarrow> BroadcastError err \<in> set (logged s)"
    unfolding r loop_logged by (auto split: option.splits)
  from 1 2 3 4 show ?thesis by blast
qed

text \<open>The theorem at the snapshot of chats 1 and 2, the transport refusing chat 1.\<close>

theorem delivery_failure_isolated_witness:
  "(chat 2, demo_report)
      \<in> set (sent (send_broadcast demo_list (\<lambda>n. demo_env) chat1_blocked {chat 1, chat 2} io0))
   \<and> SendFailed (chat 1) HTTPError
      \<in> set (logged (send_broadcast demo_list (\<lambda>n. demo_env) chat1_blocked {chat 1, chat 2} io0))
   \<and> (\<forall>err. BroadcastError err
      \<notin> set (logged (send_broadcast demo_list (\<lambda>n. demo_env) chat1_blocked {chat 1, chat 2} io0)))"
proof -
  have ne: "{chat 1, chat 2} \<noteq> {}" by simp
  have f: "format_report ((\<lambda>n. demo_env) (compiled io0)) = Inr demo_report"
    by (simp add: format_report_demo)
  have l: "demo_list {chat 1, chat 2} = [] @ chat 1 # [] @ chat 2 # []"
    by (simp add: demo_list_two)
  have a: "chat1_blocked (chat 1) demo_report = Some HTTPError"
    by (simp add: chat1_blocked_def)
  have b: "chat1_blocked (chat 2) demo_report = None"
    by (simp add: chat1_blocked_def chat_eq)
  have e: "logged io0 = []" by (simp add: io0_def)
  from delivery_failure_isolated
         [where subs = "{chat 1, chat 2}" and L = demo_list and envs = "\<lambda>n. demo_env"
            and s = io0 and msg = demo_report and send = chat1_blocked and e = HTTPError
            and xs = "[]" and a = "chat 1" and ys = "[]" and b = "chat 2" and zs = "[]",
          OF ne f l a b] e
  show ?thesis by simp
qed

end
